theory Spec2Isabelle
  imports Complex_Main "HOL-Library.AList"
begin

section \<open>JavaScript values\<close>

text \<open>
  A JavaScript \<^verbatim>\<open>number\<close> is modelled as a real (rounding of doubles is not modelled;
  the one place where the source divides by a possibly zero number is written out).
  A \<^verbatim>\<open>Date\<close> is its \<^verbatim>\<open>getTime()\<close> value in milliseconds. Every operation that calls
  \<^verbatim>\<open>new Date()\<close> takes the current time as its first argument \<open>now\<close>.

  A \<^verbatim>\<open>Map\<close> is an association list in insertion order: \<^verbatim>\<open>get\<close> is \<^const>\<open>map_of\<close>,
  \<^verbatim>\<open>set\<close> is \<^const>\<open>AList.update\<close> (an existing key keeps its position, a new
  key is appended), \<^verbatim>\<open>delete\<close> is \<^const>\<open>AList.delete\<close> and \<^verbatim>\<open>values()\<close> is
  \<open>map snd\<close>.

  An optional field (\<^verbatim>\<open>f?: T\<close>, a field of \<^verbatim>\<open>Partial<T>\<close>) is an \<open>option\<close>: \<open>None\<close> is
  \<^verbatim>\<open>undefined\<close>.
\<close>

type_synonym number = real
type_synonym date = int

text \<open>Truthiness of an optional string: \<^verbatim>\<open>undefined\<close> and \<^verbatim>\<open>''\<close> are falsy.\<close>

definition truthy :: "string option \<Rightarrow> bool" where
  "truthy s = (case s of None \<Rightarrow> False | Some v \<Rightarrow> v \<noteq> [])"

text \<open>\<^verbatim>\<open>x || d\<close> on an optional string, an optional number and an optional array or enum.\<close>

definition str_or :: "string option \<Rightarrow> string \<Rightarrow> string" where
  "str_or x d = (case x of None \<Rightarrow> d | Some v \<Rightarrow> if v = [] then d else v)"

definition num_or :: "number option \<Rightarrow> number \<Rightarrow> number" where
  "num_or x d = (case x of None \<Rightarrow> d | Some v \<Rightarrow> if v = 0 then d else v)"

definition obj_or :: "'a option \<Rightarrow> 'a \<Rightarrow> 'a" where
  "obj_or x d = (case x of None \<Rightarrow> d | Some v \<Rightarrow> v)"

text \<open>\<^verbatim>\<open>xs.join(sep)\<close>.\<close>

fun join :: "string \<Rightarrow> string list \<Rightarrow> string" where
  "join sep [] = []"
| "join sep [x] = x"
| "join sep (x # y # ys) = x @ sep @ join sep (y # ys)"

section \<open>AgentRegistry.ts\<close>

datatype agent_status = Online | Busy | Offline

record agent =
  a_id :: string
  a_name :: string
  a_capabilities :: "string list"
  a_status :: agent_status
  a_socketId :: "string option"
  a_currentTask :: "string option"
  a_lastSeen :: date
  a_performanceScore :: number
  a_tasksCompleted :: number
  a_averageTaskTime :: number

text \<open>\<^verbatim>\<open>Partial<Agent>\<close>, the second argument of \<^verbatim>\<open>registerAgent\<close>.\<close>

record agent_data =
  ad_id :: "string option"
  ad_name :: "string option"
  ad_capabilities :: "string list option"
  ad_status :: "agent_status option"
  ad_socketId :: "string option"
  ad_currentTask :: "string option"
  ad_lastSeen :: "date option"
  ad_performanceScore :: "number option"
  ad_tasksCompleted :: "number option"
  ad_averageTaskTime :: "number option"

datatype error =
  AgentNotFound string
| TaskNotFound string
| TaskNotPending string

text \<open>The events the registry emits, by name and agent id, in order of emission.\<close>

datatype registry_event =
  Agent_registered string
| Agent_status_updated string
| Agent_performance_updated string

record registry =
  agents :: "(string \<times> agent) list"
  socketToAgent :: "(string \<times> string) list"
  registry_emitted :: "registry_event list"

definition new_registry :: registry where
  "new_registry = \<lparr>agents = [], socketToAgent = [], registry_emitted = []\<rparr>"

text \<open>The object spread \<^verbatim>\<open>{ ..., ...agentData }\<close>: every field \<open>agentData\<close> has wins.\<close>

definition spread_agent :: "agent_data \<Rightarrow> agent \<Rightarrow> agent" where
  "spread_agent ad a =
     \<lparr>a_id = obj_or (ad_id ad) (a_id a),
      a_name = obj_or (ad_name ad) (a_name a),
      a_capabilities = obj_or (ad_capabilities ad) (a_capabilities a),
      a_status = obj_or (ad_status ad) (a_status a),
      a_socketId = (case ad_socketId ad of None \<Rightarrow> a_socketId a | Some s \<Rightarrow> Some s),
      a_currentTask = (case ad_currentTask ad of None \<Rightarrow> a_currentTask a | Some t \<Rightarrow> Some t),
      a_lastSeen = obj_or (ad_lastSeen ad) (a_lastSeen a),
      a_performanceScore = obj_or (ad_performanceScore ad) (a_performanceScore a),
      a_tasksCompleted = obj_or (ad_tasksCompleted ad) (a_tasksCompleted a),
      a_averageTaskTime = obj_or (ad_averageTaskTime ad) (a_averageTaskTime a)\<rparr>"

definition registerAgent :: "date \<Rightarrow> string \<Rightarrow> agent_data \<Rightarrow> registry \<Rightarrow> agent \<times> registry" where
  "registerAgent now agentId agentData reg =
     (let existingAgent = map_of (agents reg) agentId;
          agent = spread_agent agentData
            \<lparr>a_id = agentId,
             a_name = str_or (ad_name agentData) agentId,
             a_capabilities = obj_or (ad_capabilities agentData) [],
             a_status = Online,
             a_socketId = ad_socketId agentData,
             a_currentTask = None,
             a_lastSeen = now,
             a_performanceScore = num_or (map_option a_performanceScore existingAgent) 1,
             a_tasksCompleted = num_or (map_option a_tasksCompleted existingAgent) 0,
             a_averageTaskTime = num_or (map_option a_averageTaskTime existingAgent) 0\<rparr>;
          reg1 = reg\<lparr>agents := AList.update agentId agent (agents reg)\<rparr>;
          reg2 = (case a_socketId agent of
                    None \<Rightarrow> reg1
                  | Some sid \<Rightarrow>
                      if sid \<noteq> [] then reg1\<lparr>socketToAgent := AList.update sid agentId (socketToAgent reg1)\<rparr>
                      else reg1)
      in (agent, reg2\<lparr>registry_emitted := registry_emitted reg2 @ [Agent_registered agentId]\<rparr>))"

text \<open>
  \<^verbatim>\<open>updateAgentStatus\<close> throws when the agent is unknown; otherwise it mutates the stored
  agent. \<open>currentTask\<close> is written only when the argument is not \<^verbatim>\<open>undefined\<close>.
\<close>

definition updateAgentStatus ::
  "date \<Rightarrow> string \<Rightarrow> agent_status \<Rightarrow> string option \<Rightarrow> registry \<Rightarrow> error option \<times> registry" where
  "updateAgentStatus now agentId status currentTask reg =
     (case map_of (agents reg) agentId of
        None \<Rightarrow> (Some (AgentNotFound agentId), reg)
      | Some agent \<Rightarrow>
          let agent1 = agent\<lparr>a_status := status, a_lastSeen := now\<rparr>;
              agent2 = (case currentTask of
                          None \<Rightarrow> agent1
                        | Some t \<Rightarrow> agent1\<lparr>a_currentTask := Some t\<rparr>);
              s2a = (if status = Offline then
                       (case a_socketId agent2 of
                          None \<Rightarrow> socketToAgent reg
                        | Some sid \<Rightarrow>
                            if sid \<noteq> [] then AList.delete sid (socketToAgent reg)
                            else socketToAgent reg)
                     else socketToAgent reg);
              agent3 = (if status = Offline then agent2\<lparr>a_socketId := None\<rparr> else agent2)
          in (None,
              reg\<lparr>agents := AList.update agentId agent3 (agents reg),
                  socketToAgent := s2a,
                  registry_emitted := registry_emitted reg @ [Agent_status_updated agentId]\<rparr>))"

definition getAgent :: "registry \<Rightarrow> string \<Rightarrow> agent option" where
  "getAgent reg agentId = map_of (agents reg) agentId"

definition getAllAgents :: "registry \<Rightarrow> agent list" where
  "getAllAgents reg = map snd (agents reg)"

definition getAvailableAgents :: "registry \<Rightarrow> agent list" where
  "getAvailableAgents reg =
     filter (\<lambda>agent. a_status agent = Online \<and> \<not> truthy (a_currentTask agent)) (getAllAgents reg)"

definition calculateCapabilityMatch :: "agent \<Rightarrow> string list \<Rightarrow> number" where
  "calculateCapabilityMatch agent requiredCapabilities =
     (if length requiredCapabilities = 0 then 1
      else
        let matchingCapabilities =
              filter (\<lambda>cap. cap \<in> set (a_capabilities agent)) requiredCapabilities
        in real (length matchingCapabilities) / real (length requiredCapabilities))"

text \<open>The score the \<^verbatim>\<open>map\<close> callback of \<^verbatim>\<open>getOptimalAgent\<close> computes for one agent.\<close>

definition totalScore :: "agent \<Rightarrow> string list \<Rightarrow> number" where
  "totalScore agent requiredCapabilities =
     (let capabilityScore = calculateCapabilityMatch agent requiredCapabilities;
          performanceScore = a_performanceScore agent;
          workloadScore = (if a_status agent = Online then 1 else 1 / 2)
      in capabilityScore * (6 / 10) + performanceScore * (3 / 10) + workloadScore * (1 / 10))"

text \<open>
  \<^verbatim>\<open>scoredAgents.sort((a, b) => b.score - a.score)\<close>: \<^verbatim>\<open>Array.prototype.sort\<close> is stable,
  and so is \<^const>\<open>sort_key\<close> (insertion sort); descending order is ascending order of
  the negated score.
\<close>

definition getOptimalAgent :: "registry \<Rightarrow> string list \<Rightarrow> agent option" where
  "getOptimalAgent reg requiredCapabilities =
     (let availableAgents = getAvailableAgents reg
      in if length availableAgents = 0 then None
         else
           let scoredAgents = map (\<lambda>agent. (agent, totalScore agent requiredCapabilities)) availableAgents;
               sorted = sort_key (\<lambda>p. - snd p) scoredAgents
           in (case sorted of [] \<Rightarrow> None | p # _ \<Rightarrow> Some (fst p)))"

text \<open>
  \<^verbatim>\<open>updateAgentPerformance\<close> returns at once for an unknown agent. In JavaScript
  \<^verbatim>\<open>60000 / 0\<close> is \<^verbatim>\<open>Infinity\<close>, so \<^verbatim>\<open>Math.min(2.0, 60000 / 0)\<close> is \<open>2\<close>.
\<close>

definition updateAgentPerformance ::
  "string \<Rightarrow> number \<Rightarrow> bool \<Rightarrow> registry \<Rightarrow> error option \<times> registry" where
  "updateAgentPerformance agentId taskDuration success reg =
     (case map_of (agents reg) agentId of
        None \<Rightarrow> (None, reg)
      | Some agent \<Rightarrow>
          let agent' =
                (if success then
                   let agent1 = agent\<lparr>a_tasksCompleted := a_tasksCompleted agent + 1\<rparr>;
                       agent2 =
                         (if a_averageTaskTime agent1 = 0
                          then agent1\<lparr>a_averageTaskTime := taskDuration\<rparr>
                          else agent1\<lparr>a_averageTaskTime := (a_averageTaskTime agent1 + taskDuration) / 2\<rparr>);
                       efficiency =
                         max (1 / 10) (if taskDuration = 0 then 2 else min 2 (60000 / taskDuration))
                   in agent2\<lparr>a_performanceScore :=
                        min 2 (a_performanceScore agent2 * (9 / 10) + efficiency * (1 / 10))\<rparr>
                 else agent\<lparr>a_performanceScore := max (1 / 10) (a_performanceScore agent * (8 / 10))\<rparr>)
          in (None,
              reg\<lparr>agents := AList.update agentId agent' (agents reg),
                  registry_emitted := registry_emitted reg @ [Agent_performance_updated agentId]\<rparr>))"

section \<open>TaskCoordinator.ts\<close>

datatype priority = Low | Medium | High | Critical

datatype task_status = Pending | Assigned | In_progress | Completed | Failed

text \<open>The \<^verbatim>\<open>Task\<close> interface (the free-form \<^verbatim>\<open>metadata\<close> record, which nothing reads, is left out).\<close>

record task =
  t_id :: string
  t_description :: string
  t_requiredCapabilities :: "string list"
  t_priority :: priority
  t_status :: task_status
  t_assignedAgent :: "string option"
  t_dependencies :: "string list"
  t_progress :: number
  t_estimatedDuration :: "number option"
  t_createdAt :: date
  t_startedAt :: "date option"
  t_completedAt :: "date option"

text \<open>\<^verbatim>\<open>Partial<Task>\<close>, the argument of \<^verbatim>\<open>createTask\<close>.\<close>

record task_data =
  td_id :: "string option"
  td_description :: "string option"
  td_requiredCapabilities :: "string list option"
  td_priority :: "priority option"
  td_status :: "task_status option"
  td_assignedAgent :: "string option"
  td_dependencies :: "string list option"
  td_progress :: "number option"
  td_estimatedDuration :: "number option"
  td_createdAt :: "date option"
  td_startedAt :: "date option"
  td_completedAt :: "date option"

record taskAssignment =
  as_taskId :: string
  as_agentId :: string
  as_assignedAt :: date
  as_reason :: string

datatype conflict_type = Resource_contention | Dependency_deadlock | Capability_mismatch

datatype severity = Sev_low | Sev_medium | Sev_high

record conflictDetection =
  c_type :: conflict_type
  c_involvedTasks :: "string list"
  c_involvedAgents :: "string list"
  c_severity :: severity
  c_suggestedResolution :: string

text \<open>The argument \<open>update\<close> of \<^verbatim>\<open>updateTaskProgress\<close>.\<close>

record progress_update =
  u_progress :: "number option"
  u_status :: "task_status option"
  u_message :: "string option"

text \<open>The events the coordinator emits, in order of emission.\<close>

datatype coordinator_event =
  Task_created string
| Task_assigned string string
| Task_progress_updated string
| Conflicts_detected "conflictDetection list"

text \<open>
  The coordinator holds a reference to the registry; the server creates one of each, so
  the registry is a field of the coordinator's state.
\<close>

record coordinator =
  tasks :: "(string \<times> task) list"
  assignments :: "(string \<times> taskAssignment) list"
  agentRegistry :: registry
  coordinator_emitted :: "coordinator_event list"

definition new_coordinator :: "registry \<Rightarrow> coordinator" where
  "new_coordinator reg =
     \<lparr>tasks = [], assignments = [], agentRegistry = reg, coordinator_emitted = []\<rparr>"

text \<open>The object spread \<^verbatim>\<open>{ ..., ...taskData }\<close>.\<close>

definition spread_task :: "task_data \<Rightarrow> task \<Rightarrow> task" where
  "spread_task td t =
     \<lparr>t_id = obj_or (td_id td) (t_id t),
      t_description = obj_or (td_description td) (t_description t),
      t_requiredCapabilities = obj_or (td_requiredCapabilities td) (t_requiredCapabilities t),
      t_priority = obj_or (td_priority td) (t_priority t),
      t_status = obj_or (td_status td) (t_status t),
      t_assignedAgent = (case td_assignedAgent td of None \<Rightarrow> t_assignedAgent t | Some a \<Rightarrow> Some a),
      t_dependencies = obj_or (td_dependencies td) (t_dependencies t),
      t_progress = obj_or (td_progress td) (t_progress t),
      t_estimatedDuration =
        (case td_estimatedDuration td of None \<Rightarrow> t_estimatedDuration t | Some d \<Rightarrow> Some d),
      t_createdAt = obj_or (td_createdAt td) (t_createdAt t),
      t_startedAt = (case td_startedAt td of None \<Rightarrow> t_startedAt t | Some d \<Rightarrow> Some d),
      t_completedAt = (case td_completedAt td of None \<Rightarrow> t_completedAt t | Some d \<Rightarrow> Some d)\<rparr>"

text \<open>\<^verbatim>\<open>createTask\<close>; \<open>uuid\<close> is the value \<^verbatim>\<open>uuidv4()\<close> returns. It has no failing path.\<close>

definition createTask :: "date \<Rightarrow> string \<Rightarrow> task_data \<Rightarrow> coordinator \<Rightarrow> task \<times> coordinator" where
  "createTask now uuid taskData c =
     (let task = spread_task taskData
            \<lparr>t_id = uuid,
             t_description = str_or (td_description taskData) ''Untitled task'',
             t_requiredCapabilities = obj_or (td_requiredCapabilities taskData) [],
             t_priority = obj_or (td_priority taskData) Medium,
             t_status = Pending,
             t_assignedAgent = None,
             t_dependencies = obj_or (td_dependencies taskData) [],
             t_progress = 0,
             t_estimatedDuration = td_estimatedDuration taskData,
             t_createdAt = now,
             t_startedAt = None,
             t_completedAt = None\<rparr>
      in (task,
          c\<lparr>tasks := AList.update (t_id task) task (tasks c),
            coordinator_emitted := coordinator_emitted c @ [Task_created (t_id task)]\<rparr>))"

definition checkDependencies :: "coordinator \<Rightarrow> task \<Rightarrow> string list" where
  "checkDependencies c task =
     filter (\<lambda>depId. case map_of (tasks c) depId of
                        None \<Rightarrow> True
                      | Some depTask \<Rightarrow> t_status depTask \<noteq> Completed)
       (t_dependencies task)"

text \<open>
  \<^verbatim>\<open>assignOptimalAgent\<close> returns the error it throws (\<open>Inl\<close>) or its result (\<open>Inr\<close>, where
  \<open>None\<close> is \<^verbatim>\<open>null\<close>), and the state it leaves. The task is mutated before
  \<^verbatim>\<open>updateAgentStatus\<close> is awaited, so the mutation stays when that call throws.
\<close>

definition assignOptimalAgent ::
  "date \<Rightarrow> string \<Rightarrow> coordinator \<Rightarrow> (error + taskAssignment option) \<times> coordinator" where
  "assignOptimalAgent now taskId c =
     (case map_of (tasks c) taskId of
        None \<Rightarrow> (Inl (TaskNotFound taskId), c)
      | Some task \<Rightarrow>
          if t_status task \<noteq> Pending then (Inl (TaskNotPending taskId), c)
          else if length (checkDependencies c task) > 0 then (Inr None, c)
          else
            (case getOptimalAgent (agentRegistry c) (t_requiredCapabilities task) of
               None \<Rightarrow> (Inr None, c)
             | Some optimalAgent \<Rightarrow>
                 let assignment =
                       \<lparr>as_taskId = t_id task,
                        as_agentId = a_id optimalAgent,
                        as_assignedAt = now,
                        as_reason = ''Optimal match for capabilities: '' @
                                    join '', '' (t_requiredCapabilities task)\<rparr>;
                     task' = task\<lparr>t_status := Assigned, t_assignedAgent := Some (a_id optimalAgent)\<rparr>;
                     c1 = c\<lparr>tasks := AList.update taskId task' (tasks c)\<rparr>
                 in (case updateAgentStatus now (a_id optimalAgent) Busy (Some (t_id task))
                            (agentRegistry c1) of
                       (Some e, reg') \<Rightarrow> (Inl e, c1\<lparr>agentRegistry := reg'\<rparr>)
                     | (None, reg') \<Rightarrow>
                         (Inr (Some assignment),
                          c1\<lparr>agentRegistry := reg',
                             assignments := AList.update (t_id task) assignment (assignments c1),
                             coordinator_emitted := coordinator_emitted c1 @
                               [Task_assigned (t_id task) (a_id optimalAgent)]\<rparr>))))"

text \<open>
  \<^verbatim>\<open>processPendingTasks\<close> takes the pending tasks once and tries each in turn; the
  \<^verbatim>\<open>catch\<close> only logs, so a thrown error is dropped and the state is kept.
\<close>

fun assignEach :: "date \<Rightarrow> task list \<Rightarrow> coordinator \<Rightarrow> coordinator" where
  "assignEach now [] c = c"
| "assignEach now (task # rest) c = assignEach now rest (snd (assignOptimalAgent now (t_id task) c))"

definition processPendingTasks :: "date \<Rightarrow> coordinator \<Rightarrow> coordinator" where
  "processPendingTasks now c =
     (let pendingTasks = filter (\<lambda>task. t_status task = Pending) (map snd (tasks c))
      in assignEach now pendingTasks c)"

definition handleTaskCompletion :: "date \<Rightarrow> task \<Rightarrow> coordinator \<Rightarrow> error option \<times> coordinator" where
  "handleTaskCompletion now task c =
     (if truthy (t_assignedAgent task) then
        (case t_assignedAgent task of
           None \<Rightarrow> (None, c)
         | Some assignedAgent \<Rightarrow>
             let duration =
                   (case (t_startedAt task, t_completedAt task) of
                      (Some s, Some e) \<Rightarrow> real_of_int (e - s)
                    | _ \<Rightarrow> 0);
                 reg1 = snd (updateAgentPerformance assignedAgent duration True (agentRegistry c));
                 (err, reg2) = updateAgentStatus now assignedAgent Online None reg1
             in (err, c\<lparr>agentRegistry := reg2\<rparr>))
      else (None, c))"

definition handleTaskFailure :: "date \<Rightarrow> task \<Rightarrow> coordinator \<Rightarrow> error option \<times> coordinator" where
  "handleTaskFailure now task c =
     (if truthy (t_assignedAgent task) then
        (case t_assignedAgent task of
           None \<Rightarrow> (None, c)
         | Some assignedAgent \<Rightarrow>
             let reg1 = snd (updateAgentPerformance assignedAgent 0 False (agentRegistry c));
                 (err, reg2) = updateAgentStatus now assignedAgent Online None reg1
             in (err, c\<lparr>agentRegistry := reg2\<rparr>))
      else (None, c))"

text \<open>
  \<^verbatim>\<open>updateTaskProgress\<close>. The task object is mutated in place: \<open>writeUpdate\<close> collects
  the writes to the task (the clamped progress, the status and the fields the \<^verbatim>\<open>switch\<close>
  sets), which are stored before the completion or failure handler runs; a throw from
  that handler leaves the writes and skips the event and the pending pass.
\<close>

definition writeUpdate :: "date \<Rightarrow> progress_update \<Rightarrow> task \<Rightarrow> task" where
  "writeUpdate now update task =
     (let task1 = (case u_progress update of
                     None \<Rightarrow> task
                   | Some p \<Rightarrow> task\<lparr>t_progress := max 0 (min 100 p)\<rparr>)
      in (case u_status update of
            None \<Rightarrow> task1
          | Some s \<Rightarrow>
              let task2 = task1\<lparr>t_status := s\<rparr>
              in (case s of
                    In_progress \<Rightarrow>
                      (if t_startedAt task2 = None then task2\<lparr>t_startedAt := Some now\<rparr> else task2)
                  | Completed \<Rightarrow> task2\<lparr>t_completedAt := Some now, t_progress := 100\<rparr>
                  | Failed \<Rightarrow> task2\<lparr>t_completedAt := Some now\<rparr>
                  | _ \<Rightarrow> task2)))"

definition updateTaskProgress ::
  "date \<Rightarrow> string \<Rightarrow> progress_update \<Rightarrow> coordinator \<Rightarrow> error option \<times> coordinator" where
  "updateTaskProgress now taskId update c =
     (case map_of (tasks c) taskId of
        None \<Rightarrow> (Some (TaskNotFound taskId), c)
      | Some task \<Rightarrow>
          let previousStatus = t_status task;
              task' = writeUpdate now update task;
              c1 = c\<lparr>tasks := AList.update taskId task' (tasks c)\<rparr>;
              handled = (case u_status update of
                           Some Completed \<Rightarrow> handleTaskCompletion now task' c1
                         | Some Failed \<Rightarrow> handleTaskFailure now task' c1
                         | _ \<Rightarrow> (None, c1))
          in (case fst handled of
                Some e \<Rightarrow> (Some e, snd handled)
              | None \<Rightarrow>
                  let c2 = (snd handled)\<lparr>coordinator_emitted :=
                             coordinator_emitted (snd handled) @ [Task_progress_updated taskId]\<rparr>
                  in if previousStatus \<noteq> Completed \<and> t_status task' = Completed
                     then (None, processPendingTasks now c2)
                     else (None, c2)))"

definition getTask :: "coordinator \<Rightarrow> string \<Rightarrow> task option" where
  "getTask c taskId = map_of (tasks c) taskId"

definition getAllTasks :: "coordinator \<Rightarrow> task list" where
  "getAllTasks c = map snd (tasks c)"

subsection \<open>Conflict detection\<close>

text \<open>
  \<^verbatim>\<open>detectCycles\<close> keeps two \<^verbatim>\<open>Set\<close>s and the list of cycles found; a \<^verbatim>\<open>Set\<close> is a list
  without duplicates in insertion order. \<^verbatim>\<open>path.slice(path.indexOf(dep))\<close> is the suffix
  of \<open>path\<close> from the first \<open>dep\<close>; when \<open>dep\<close> is absent \<^verbatim>\<open>indexOf\<close> is \<open>-1\<close> and
  \<^verbatim>\<open>slice(-1)\<close> is the last element.
\<close>

record dfs_state =
  visited :: "string list"
  recursionStack :: "string list"
  cycles :: "string list list"

definition set_add :: "string \<Rightarrow> string list \<Rightarrow> string list" where
  "set_add x s = (if x \<in> set s then s else s @ [x])"

definition slice_indexOf :: "string list \<Rightarrow> string \<Rightarrow> string list" where
  "slice_indexOf path dep =
     (if dep \<in> set path then dropWhile (\<lambda>x. x \<noteq> dep) path
      else if path = [] then [] else [last path])"

text \<open>
  The closure \<^verbatim>\<open>dfs\<close> and its \<^verbatim>\<open>for\<close> loop over the dependencies of a node. The recursive
  call receives a copy of the path, so the caller's path is the one it pushed to.
\<close>

function dfs :: "(string \<times> string list) list \<Rightarrow> string \<Rightarrow> string list \<Rightarrow> dfs_state \<Rightarrow> dfs_state"
  and dfs_each :: "(string \<times> string list) list \<Rightarrow> string list \<Rightarrow> string list \<Rightarrow> dfs_state \<Rightarrow> dfs_state" where
  "dfs graph node path st =
     (let st1 = st\<lparr>visited := set_add node (visited st),
                   recursionStack := set_add node (recursionStack st)\<rparr>;
          path' = path @ [node];
          dependencies = obj_or (map_of graph node) [];
          st2 = dfs_each graph path' dependencies st1
      in st2\<lparr>recursionStack := removeAll node (recursionStack st2)\<rparr>)"
| "dfs_each graph path [] st = st"
| "dfs_each graph path (dep # rest) st =
     dfs_each graph path rest
       (if dep \<notin> set (visited st) then dfs graph dep path st
        else if dep \<in> set (recursionStack st)
             then st\<lparr>cycles := cycles st @ [slice_indexOf path dep]\<rparr>
        else st)"
  by pat_completeness auto

text \<open>
  Termination: every recursive call of \<^verbatim>\<open>dfs\<close> is on a node that is not yet visited, and
  nodes are never removed from \<open>visited\<close>, so the number of unvisited nodes among the ids
  the graph mentions goes down.
\<close>

definition graph_nodes :: "(string \<times> string list) list \<Rightarrow> string set" where
  "graph_nodes graph = (\<Union>p \<in> set graph. set (snd p))"

definition dfs_measure ::
  "(string \<times> string list) list \<times> string \<times> string list \<times> dfs_state +
   (string \<times> string list) list \<times> string list \<times> string list \<times> dfs_state \<Rightarrow> nat \<times> nat" where
  "dfs_measure x =
     (case x of
       Inl (graph, node, path, st) \<Rightarrow>
         (Suc (card (graph_nodes graph - set (visited st) - {node})), 0)
     | Inr (graph, path, deps, st) \<Rightarrow>
         (card ((graph_nodes graph \<union> set deps) - set (visited st)), Suc (length deps)))"

lemma dfs_visited_mono:
  "dfs_dfs_each_dom (Inl (graph, node, path, st)) \<Longrightarrow>
     set (visited st) \<subseteq> set (visited (dfs graph node path st))"
  "dfs_dfs_each_dom (Inr (graph, path, deps, st)) \<Longrightarrow>
     set (visited st) \<subseteq> set (visited (dfs_each graph path deps st))"
proof (induct rule: dfs_dfs_each.pinduct)
  case (1 graph node path st)
  let ?st1 = "st\<lparr>visited := set_add node (visited st),
                    recursionStack := set_add node (recursionStack st)\<rparr>"
  have "set (visited ?st1) \<subseteq>
      set (visited (dfs_each graph (path @ [node]) (obj_or (map_of graph node) []) ?st1))"
    by (rule 1(2)) (rule refl)+
  moreover have "set (visited st) \<subseteq> set (visited ?st1)"
    by (auto simp: set_add_def)
  ultimately show ?case
    using 1(1) by (simp add: dfs.psimps Let_def)
next
  case (2 graph path st)
  then show ?case by (simp add: dfs_each.psimps)
next
  case (3 graph path dep rest st)
  then show ?case by (auto simp: dfs_each.psimps split: if_splits)
qed

lemma graph_nodes_finite: "finite (graph_nodes graph)"
  by (simp add: graph_nodes_def)

lemma deps_in_graph_nodes: "set (obj_or (map_of graph node) []) \<subseteq> graph_nodes graph"
proof (cases "map_of graph node")
  case None
  then show ?thesis by (simp add: obj_or_def)
next
  case (Some ds)
  then have "(node, ds) \<in> set graph" by (rule map_of_SomeD)
  then show ?thesis using Some by (force simp: obj_or_def graph_nodes_def)
qed

lemma card_unvisited_step:
  assumes "finite A" "d \<in> A" "d \<notin> V"
  shows "Suc (card (B \<inter> A - V - {d})) \<le> card (A - V)"
proof -
  define C where "C = B \<inter> A - V - {d}"
  have fin: "finite C" and notin: "d \<notin> C" using assms by (auto simp: C_def)
  have "insert d C \<subseteq> A - V" using assms by (auto simp: C_def)
  moreover have "finite (A - V)" using assms by simp
  ultimately have "card (insert d C) \<le> card (A - V)"
    by (rule card_mono[rotated])
  then have "Suc (card C) \<le> card (A - V)"
    by (simp only: card_insert_disjoint[OF fin notin])
  then show ?thesis by (simp only: C_def)
qed

termination dfs
proof (relation "inv_image (less_than <*lex*> less_than) dfs_measure")
  show "wf (inv_image (less_than <*lex*> less_than) dfs_measure)"
    by (intro wf_inv_image wf_lex_prod wf_less_than)
next
  fix graph node path and st x :: dfs_state and xa xb :: "string list"
  assume x: "x = st\<lparr>visited := set_add node (visited st),
                      recursionStack := set_add node (recursionStack st)\<rparr>"
    and "xa = path @ [node]" and xb: "xb = obj_or (map_of graph node) []"
  have "set xb \<subseteq> graph_nodes graph" using xb deps_in_graph_nodes by simp
  then have "graph_nodes graph \<union> set xb = graph_nodes graph" by auto
  moreover have "set (visited x) = insert node (set (visited st))"
    using x by (auto simp: set_add_def)
  moreover have "graph_nodes graph - insert node (set (visited st)) =
      graph_nodes graph - set (visited st) - {node}"
    by auto
  ultimately show "(Inr (graph, xa, xb, x), Inl (graph, node, path, st))
      \<in> inv_image (less_than <*lex*> less_than) dfs_measure"
    by (simp add: dfs_measure_def)
next
  fix graph path dep rest and st :: dfs_state
  assume nv: "dep \<notin> set (visited st)"
  have "Suc (card (graph_nodes graph \<inter> (graph_nodes graph \<union> set (dep # rest)) -
        set (visited st) - {dep}))
      \<le> card ((graph_nodes graph \<union> set (dep # rest)) - set (visited st))"
    by (rule card_unvisited_step) (use nv in \<open>auto simp: graph_nodes_finite\<close>)
  moreover have "graph_nodes graph \<inter> (graph_nodes graph \<union> set (dep # rest)) = graph_nodes graph"
    by auto
  ultimately have "Suc (card (graph_nodes graph - set (visited st) - {dep}))
      \<le> card ((graph_nodes graph \<union> set (dep # rest)) - set (visited st))"
    by simp
  then show "(Inl (graph, dep, path, st), Inr (graph, path, dep # rest, st))
      \<in> inv_image (less_than <*lex*> less_than) dfs_measure"
    by (auto simp: dfs_measure_def)
next
  fix graph path dep rest and st :: dfs_state
  assume dom: "dep \<notin> set (visited st) \<Longrightarrow> dfs_dfs_each_dom (Inl (graph, dep, path, st))"
  let ?st' = "if dep \<notin> set (visited st) then dfs graph dep path st
         else if dep \<in> set (recursionStack st)
              then st\<lparr>cycles := cycles st @ [slice_indexOf path dep]\<rparr>
              else st"
  have mono: "set (visited st) \<subseteq> set (visited ?st')"
    using dom dfs_visited_mono(1) by auto
  have "(graph_nodes graph \<union> set rest) - set (visited ?st')
      \<subseteq> (graph_nodes graph \<union> set (dep # rest)) - set (visited st)"
    using mono by auto
  then have "card ((graph_nodes graph \<union> set rest) - set (visited ?st'))
      \<le> card ((graph_nodes graph \<union> set (dep # rest)) - set (visited st))"
    by (intro card_mono) (auto simp: graph_nodes_finite)
  then show "(Inr (graph, path, rest, ?st'), Inr (graph, path, dep # rest, st))
      \<in> inv_image (less_than <*lex*> less_than) dfs_measure"
    by (auto simp: dfs_measure_def)
qed

text \<open>The loop \<^verbatim>\<open>for (const node of graph.keys())\<close> of \<^verbatim>\<open>detectCycles\<close>.\<close>

fun dfs_roots :: "(string \<times> string list) list \<Rightarrow> string list \<Rightarrow> dfs_state \<Rightarrow> dfs_state" where
  "dfs_roots graph [] st = st"
| "dfs_roots graph (node # rest) st =
     dfs_roots graph rest (if node \<notin> set (visited st) then dfs graph node [] st else st)"

definition detectCycles :: "(string \<times> string list) list \<Rightarrow> string list list" where
  "detectCycles graph =
     cycles (dfs_roots graph (map fst graph) \<lparr>visited = [], recursionStack = [], cycles = []\<rparr>)"

definition buildDependencyGraph :: "coordinator \<Rightarrow> (string \<times> string list) list" where
  "buildDependencyGraph c =
     foldl (\<lambda>graph task. AList.update (t_id task) (t_dependencies task) graph) [] (map snd (tasks c))"

text \<open>The three loops of \<^verbatim>\<open>detectConflicts\<close>, each giving the conflicts it pushes, in order.\<close>

definition resourceContention :: "coordinator \<Rightarrow> conflictDetection list" where
  "resourceContention c =
     (let busyAgents = filter (\<lambda>agent. a_status agent = Busy) (getAllAgents (agentRegistry c))
      in concat (map (\<lambda>agent.
           let agentTasks = filter (\<lambda>task. t_assignedAgent task = Some (a_id agent)) (map snd (tasks c))
           in if length agentTasks > 1
              then [\<lparr>c_type = Resource_contention,
                     c_involvedTasks = map t_id agentTasks,
                     c_involvedAgents = [a_id agent],
                     c_severity = Sev_medium,
                     c_suggestedResolution = ''Redistribute tasks from agent '' @ a_id agent\<rparr>]
              else []) busyAgents))"

definition dependencyDeadlock :: "coordinator \<Rightarrow> conflictDetection list" where
  "dependencyDeadlock c =
     map (\<lambda>cycle.
           \<lparr>c_type = Dependency_deadlock,
            c_involvedTasks = cycle,
            c_involvedAgents = [],
            c_severity = Sev_high,
            c_suggestedResolution = ''Restructure task dependencies to break cycle''\<rparr>)
       (detectCycles (buildDependencyGraph c))"

definition capabilityMismatch :: "coordinator \<Rightarrow> conflictDetection list" where
  "capabilityMismatch c =
     (let assignedTasks =
            filter (\<lambda>task. t_status task = Assigned \<or> t_status task = In_progress) (map snd (tasks c))
      in concat (map (\<lambda>task.
           if truthy (t_assignedAgent task) then
             (case t_assignedAgent task of
                None \<Rightarrow> []
              | Some assignedAgent \<Rightarrow>
                  (case getAgent (agentRegistry c) assignedAgent of
                     None \<Rightarrow> []
                   | Some agent \<Rightarrow>
                       let missingCapabilities =
                             filter (\<lambda>cap. cap \<notin> set (a_capabilities agent)) (t_requiredCapabilities task)
                       in if length missingCapabilities > 0
                          then [\<lparr>c_type = Capability_mismatch,
                                 c_involvedTasks = [t_id task],
                                 c_involvedAgents = [a_id agent],
                                 c_severity = Sev_low,
                                 c_suggestedResolution =
                                   ''Agent '' @ a_id agent @ '' missing capabilities: '' @
                                   join '', '' missingCapabilities\<rparr>]
                          else []))
           else []) assignedTasks))"

definition detectConflicts :: "coordinator \<Rightarrow> conflictDetection list \<times> coordinator" where
  "detectConflicts c =
     (let conflicts = resourceContention c @ dependencyDeadlock c @ capabilityMismatch c
      in if length conflicts > 0
         then (conflicts, c\<lparr>coordinator_emitted := coordinator_emitted c @ [Conflicts_detected conflicts]\<rparr>)
         else (conflicts, c))"

section \<open>The socket handlers of the server\<close>

text \<open>
  The handlers of \<^verbatim>\<open>io.on('connection')\<close> for \<^verbatim>\<open>register_agent\<close>, \<^verbatim>\<open>create_task\<close>,
  \<^verbatim>\<open>task_progress\<close> (\<^verbatim>\<open>update_task_progress\<close> makes the same coordinator call) and
  \<^verbatim>\<open>agent_status\<close>. Each takes the message and the state and gives the messages it sends
  and the state it leaves. The server's registry is the one the coordinator holds. A
  handler's \<^verbatim>\<open>catch\<close> turns a thrown error into an error reply (or only logs it) and
  keeps the state reached.
\<close>

datatype outbound =
  Agent_registered_reply string
| Agent_joined string
| Registration_error error
| Task_assigned_broadcast string string
| Task_pending_broadcast string
| Task_created_reply string
| Task_error error
| Task_progress_broadcast string
| Agent_status_update string agent_status

record register_agent_msg =
  m_agentId :: string
  m_capabilities :: "string list option"
  m_name :: "string option"

record task_progress_msg =
  m_taskId :: string
  m_progress :: "number option"
  m_status :: "task_status option"
  m_message :: "string option"


definition on_register_agent ::
  "date \<Rightarrow> string \<Rightarrow> register_agent_msg \<Rightarrow> coordinator \<Rightarrow> outbound list \<times> coordinator" where
  "on_register_agent now socketId data c =
     (let agentId = m_agentId data;
          (agent, reg') = registerAgent now agentId
            \<lparr>ad_id = None,
             ad_name = Some (str_or (m_name data) agentId),
             ad_capabilities = Some (obj_or (m_capabilities data) []),
             ad_status = Some Online,
             ad_socketId = Some socketId,
             ad_currentTask = None,
             ad_lastSeen = None,
             ad_performanceScore = None,
             ad_tasksCompleted = None,
             ad_averageTaskTime = None\<rparr> (agentRegistry c)
      in ([Agent_registered_reply agentId, Agent_joined agentId], c\<lparr>agentRegistry := reg'\<rparr>))"

definition on_create_task ::
  "date \<Rightarrow> string \<Rightarrow> task_data \<Rightarrow> coordinator \<Rightarrow> outbound list \<times> coordinator" where
  "on_create_task now uuid data c =
     (let (task, c1) = createTask now uuid data c
      in (case assignOptimalAgent now (t_id task) c1 of
            (Inl e, c2) \<Rightarrow> ([Task_error e], c2)
          | (Inr (Some assignment), c2) \<Rightarrow>
              ([Task_assigned_broadcast (t_id task) (as_agentId assignment),
                Task_created_reply (t_id task)], c2)
          | (Inr None, c2) \<Rightarrow>
              ([Task_pending_broadcast (t_id task), Task_created_reply (t_id task)], c2)))"

definition on_task_progress ::
  "date \<Rightarrow> task_progress_msg \<Rightarrow> coordinator \<Rightarrow> outbound list \<times> coordinator" where
  "on_task_progress now data c =
     (case updateTaskProgress now (m_taskId data)
             \<lparr>u_progress = m_progress data, u_status = m_status data, u_message = m_message data\<rparr> c of
        (Some e, c') \<Rightarrow> ([], c')
      | (None, c') \<Rightarrow> ([Task_progress_broadcast (m_taskId data)], c'))"


section \<open>Concrete inputs\<close>


definition no_task_data :: task_data where
  "no_task_data = \<lparr>td_id = None, td_description = None, td_requiredCapabilities = None,
     td_priority = None, td_status = None, td_assignedAgent = None, td_dependencies = None,
     td_progress = None, td_estimatedDuration = None, td_createdAt = None, td_startedAt = None,
     td_completedAt = None\<rparr>"

text \<open>A server on which agent \<open>A1\<close> with capability \<open>python\<close> has registered over socket \<open>s1\<close>.\<close>

definition server_A1 :: coordinator where
  "server_A1 =
     snd (on_register_agent 0 ''s1''
       \<lparr>m_agentId = ''A1'', m_capabilities = Some [''python''], m_name = None\<rparr>
       (new_coordinator new_registry))"


text \<open>
  The dependency scenario: on \<^const>\<open>server_A1\<close>, task \<open>T1\<close> is created (and assigned to
  \<open>A1\<close>), task \<open>T2\<close> with \<open>dependencies = [T1]\<close> is created (and stays pending), then a
  \<^verbatim>\<open>task_progress\<close> message completes \<open>T1\<close>.
\<close>

definition server_T1 :: coordinator where
  "server_T1 =
     snd (on_create_task 1 ''T1''
       (no_task_data\<lparr>td_description := Some ''first'', td_requiredCapabilities := Some [''python'']\<rparr>)
       server_A1)"

definition server_T2 :: coordinator where
  "server_T2 =
     snd (on_create_task 2 ''T2''
       (no_task_data\<lparr>td_description := Some ''second'', td_requiredCapabilities := Some [''python''],
          td_dependencies := Some [''T1'']\<rparr>)
       server_T1)"

definition server_T1_done :: coordinator where
  "server_T1_done =
     snd (on_task_progress 3
       \<lparr>m_taskId = ''T1'', m_progress = None, m_status = Some Completed, m_message = None\<rparr>
       server_T2)"


text \<open>
  After the dependency scenario, \<open>A1\<close> registers again (over a new socket) and a task \<open>T3\<close>
  is created, which is assigned to \<open>A1\<close>.
\<close>

definition server_T3 :: coordinator where
  "server_T3 =
     snd (on_create_task 5 ''T3''
       (no_task_data\<lparr>td_description := Some ''third'', td_requiredCapabilities := Some [''python'']\<rparr>)
       (snd (on_register_agent 4 ''s2''
         \<lparr>m_agentId = ''A1'', m_capabilities = Some [''python''], m_name = None\<rparr>
         server_T1_done)))"

section \<open>Facts about the \<^verbatim>\<open>Map\<close> model\<close>

lemma map_of_update_same: "map_of (AList.update k v al) k = Some v"
  by (simp add: update_conv')

lemma map_of_update_other: "k' \<noteq> k \<Longrightarrow> map_of (AList.update k v al) k' = map_of al k'"
  by (simp add: update_conv')

section \<open>The registry\<close>

text \<open>What \<^verbatim>\<open>updateAgentStatus\<close> does to a known agent, and that it throws only for an unknown one.\<close>

lemma updateAgentStatus_known:
  assumes "getAgent reg agentId = Some agent"
  shows "fst (updateAgentStatus now agentId status currentTask reg) = None
     \<and> (\<exists>agent'. getAgent (snd (updateAgentStatus now agentId status currentTask reg)) agentId = Some agent'
          \<and> a_status agent' = status
          \<and> a_currentTask agent' = (case currentTask of None \<Rightarrow> a_currentTask agent | Some t \<Rightarrow> Some t))"
  using assms
  by (auto simp: updateAgentStatus_def getAgent_def Let_def map_of_update_same split: option.splits)


text \<open>
  Claim C10. For an agent id that is not in the registry, \<^verbatim>\<open>updateAgentPerformance\<close>
  returns normally and leaves the whole registry as it was, emitted events included,
  whatever the duration and the success flag; \<^verbatim>\<open>updateAgentStatus\<close> on the same id
  throws \<open>Agent ... not found\<close>.
\<close>

theorem updateAgentPerformance_unknown_agent:
  assumes "getAgent reg agentId = None"
  shows "updateAgentPerformance agentId taskDuration success reg = (None, reg)
       \<and> updateAgentStatus now agentId status currentTask reg = (Some (AgentNotFound agentId), reg)"
  using assms by (simp add: getAgent_def updateAgentPerformance_def updateAgentStatus_def)

theorem updateAgentPerformance_unknown_agent_witness:
  "getAgent (agentRegistry server_A1) ''ghost'' = None
   \<and> updateAgentPerformance ''ghost'' 60000 True (agentRegistry server_A1) =
       (None, agentRegistry server_A1)
   \<and> updateAgentStatus 7 ''ghost'' Online None (agentRegistry server_A1) =
       (Some (AgentNotFound ''ghost''), agentRegistry server_A1)"
proof -
  have h: "getAgent (agentRegistry server_A1) ''ghost'' = None"
    by code_simp
  show ?thesis
    using h updateAgentPerformance_unknown_agent [OF h, of 60000 True 7 Online None] by simp
qed




subsection \<open>Selection\<close>

text \<open>
  Insertion order: a first registration appends the agent to the list of all agents, and
  a registration under a known id leaves every id at its position.
\<close>

lemma update_new_key: "map_of al k = None \<Longrightarrow> AList.update k v al = al @ [(k, v)]"
  by (induction al) (auto split: if_splits)

lemma registerAgent_appends:
  assumes "getAgent reg agentId = None"
  shows "getAllAgents (snd (registerAgent now agentId agentData reg)) =
           getAllAgents reg @ [fst (registerAgent now agentId agentData reg)]"
  using assms
  by (auto simp: registerAgent_def getAgent_def getAllAgents_def Let_def update_new_key
        split: option.splits)

lemma registerAgent_keeps_order:
  "map fst (agents (snd (registerAgent now agentId agentData reg))) =
     (if agentId \<in> fst ` set (agents reg) then map fst (agents reg)
      else map fst (agents reg) @ [agentId])"
  by (auto simp: registerAgent_def Let_def update_keys split: option.splits)










section \<open>The coordinator\<close>

text \<open>
  \<^verbatim>\<open>assignOptimalAgent\<close> writes at most the task it is called on, and only when that task
  is pending with no unmet dependency; so no pass over the pending tasks touches a task
  that is not pending.
\<close>

lemma assignOptimalAgent_tasks:
  "tasks (snd (assignOptimalAgent now taskId c)) = tasks c
   \<or> (\<exists>task agentId. map_of (tasks c) taskId = Some task \<and> t_status task = Pending
        \<and> checkDependencies c task = []
        \<and> tasks (snd (assignOptimalAgent now taskId c)) =
            AList.update taskId (task\<lparr>t_status := Assigned, t_assignedAgent := Some agentId\<rparr>) (tasks c))"
  by (auto simp: assignOptimalAgent_def Let_def split: option.splits prod.splits)

lemma assignOptimalAgent_keeps_nonpending:
  assumes "map_of (tasks c) k = Some t" "t_status t \<noteq> Pending"
  shows "map_of (tasks (snd (assignOptimalAgent now taskId c))) k = Some t"
  using assignOptimalAgent_tasks[of now taskId c] assms
  by (auto simp: update_conv')

lemma assignEach_keeps_nonpending:
  assumes "map_of (tasks c) k = Some t" "t_status t \<noteq> Pending"
  shows "map_of (tasks (assignEach now ts c)) k = Some t"
  using assms
  by (induction ts arbitrary: c) (auto simp: assignOptimalAgent_keeps_nonpending)

lemma processPendingTasks_keeps_nonpending:
  assumes "map_of (tasks c) k = Some t" "t_status t \<noteq> Pending"
  shows "map_of (tasks (processPendingTasks now c)) k = Some t"
  using assms by (simp add: processPendingTasks_def assignEach_keeps_nonpending)

lemma handleTaskCompletion_tasks: "tasks (snd (handleTaskCompletion now task c)) = tasks c"
  by (auto simp: handleTaskCompletion_def Let_def split: option.splits prod.splits)

lemma handleTaskFailure_tasks: "tasks (snd (handleTaskFailure now task c)) = tasks c"
  by (auto simp: handleTaskFailure_def Let_def split: option.splits prod.splits)

text \<open>The task object after \<^verbatim>\<open>updateTaskProgress\<close>, whether or not it throws.\<close>

lemma updateTaskProgress_task:
  assumes "map_of (tasks c) taskId = Some task"
  shows "\<exists>task'. map_of (tasks (snd (updateTaskProgress now taskId update c))) taskId = Some task'
     \<and> t_status task' = (case u_status update of None \<Rightarrow> t_status task | Some s \<Rightarrow> s)
     \<and> t_progress task' =
         (if u_status update = Some Completed then 100
          else case u_progress update of None \<Rightarrow> t_progress task | Some p \<Rightarrow> max 0 (min 100 p))
     \<and> t_assignedAgent task' = t_assignedAgent task
     \<and> t_dependencies task' = t_dependencies task"
proof -
  define task2 where "task2 = writeUpdate now update task"
  define c1 where "c1 = c\<lparr>tasks := AList.update taskId task2 (tasks c)\<rparr>"
  define r where "r = (case u_status update of
                             Some Completed \<Rightarrow> handleTaskCompletion now task2 c1
                           | Some Failed \<Rightarrow> handleTaskFailure now task2 c1
                           | _ \<Rightarrow> (None, c1))"
  define c3 where "c3 = (snd r)\<lparr>coordinator_emitted := coordinator_emitted (snd r) @ [Task_progress_updated taskId]\<rparr>"
  have res: "updateTaskProgress now taskId update c =
      (case fst r of
         Some e \<Rightarrow> (Some e, snd r)
       | None \<Rightarrow> if t_status task \<noteq> Completed \<and> t_status task2 = Completed
                 then (None, processPendingTasks now c3) else (None, c3))"
    unfolding updateTaskProgress_def Let_def task2_def c1_def r_def c3_def
    using assms by simp
  have r_tasks: "tasks (snd r) = tasks c1"
    by (auto simp: r_def handleTaskCompletion_tasks handleTaskFailure_tasks
        split: option.splits task_status.splits)
  have at1: "map_of (tasks (snd r)) taskId = Some task2"
    by (simp add: r_tasks c1_def map_of_update_same)
  have at3: "map_of (tasks c3) taskId = Some task2"
    using at1 by (simp add: c3_def)
  have stored: "map_of (tasks (snd (updateTaskProgress now taskId update c))) taskId = Some task2"
  proof (cases "fst r")
    case (Some e)
    then show ?thesis using at1 by (simp add: res)
  next
    case None
    show ?thesis
    proof (cases "t_status task \<noteq> Completed \<and> t_status task2 = Completed")
      case True
      then have "map_of (tasks (processPendingTasks now c3)) taskId = Some task2"
        using at3 by (intro processPendingTasks_keeps_nonpending) auto
      then show ?thesis using None True by (simp add: res)
    next
      case False
      then show ?thesis using None at3 by (auto simp: res)
    qed
  qed
  have "t_status task2 = (case u_status update of None \<Rightarrow> t_status task | Some s \<Rightarrow> s)"
    by (auto simp: task2_def writeUpdate_def Let_def split: option.splits task_status.splits)
  moreover have "t_progress task2 =
         (if u_status update = Some Completed then 100
          else case u_progress update of None \<Rightarrow> t_progress task | Some p \<Rightarrow> max 0 (min 100 p))"
    by (auto simp: task2_def writeUpdate_def Let_def split: option.splits task_status.splits)
  moreover have "t_assignedAgent task2 = t_assignedAgent task"
    by (auto simp: task2_def writeUpdate_def Let_def split: option.splits task_status.splits)
  moreover have "t_dependencies task2 = t_dependencies task"
    by (auto simp: task2_def writeUpdate_def Let_def split: option.splits task_status.splits)
  ultimately show ?thesis using stored by blast
qed

subsection \<open>Progress updates\<close>

text \<open>
  Claim C3, as amended. \<^verbatim>\<open>updateTaskProgress\<close> on a known task writes the status the
  update carries, whichever of the five it is and whatever the status was before; the
  status stays as it was only when the update carries none. This holds also when the
  completion handler throws.
\<close>

theorem updateTaskProgress_status:
  assumes "getTask c taskId = Some task"
  shows "\<exists>task'. getTask (snd (updateTaskProgress now taskId update c)) taskId = Some task'
     \<and> t_status task' = (case u_status update of None \<Rightarrow> t_status task | Some s \<Rightarrow> s)"
  using updateTaskProgress_task [of c taskId task now update] assms
  unfolding getTask_def by blast

theorem updateTaskProgress_status_witness:
  "map_option t_status (getTask server_T2 ''T1'') = Some Assigned
   \<and> map_option t_status (getTask (snd (updateTaskProgress 3 ''T1''
        \<lparr>u_progress = Some 25, u_status = Some In_progress, u_message = None\<rparr> server_T2)) ''T1'')
       = Some In_progress
   \<and> map_option t_status (getTask (snd (updateTaskProgress 3 ''T1''
        \<lparr>u_progress = Some 25, u_status = None, u_message = None\<rparr> server_T2)) ''T1'')
       = Some Assigned"
proof -
  define task where "task = the (getTask server_T2 ''T1'')"
  have h: "getTask server_T2 ''T1'' = Some task"
    unfolding task_def by code_simp
  have st: "t_status task = Assigned"
    unfolding task_def by code_simp
  from updateTaskProgress_status [OF h, of 3 "\<lparr>u_progress = Some 25, u_status = Some In_progress, u_message = None\<rparr>"]
    updateTaskProgress_status [OF h, of 3 "\<lparr>u_progress = Some 25, u_status = None, u_message = None\<rparr>"]
  show ?thesis using h st by auto
qed

text \<open>
  There is no check of the transition: the completed task \<open>T1\<close> goes back to \<open>pending\<close>
  when an update says so.
\<close>

theorem updateTaskProgress_terminal_counterexample:
  "map_option t_status (getTask server_T1_done ''T1'') = Some Completed
   \<and> map_option t_status (getTask (snd (updateTaskProgress 4 ''T1''
        \<lparr>u_progress = None, u_status = Some Pending, u_message = None\<rparr> server_T1_done)) ''T1'')
       = Some Pending"
  by code_simp




subsection \<open>Dependencies\<close>

lemma checkDependencies_Nil_iff:
  "checkDependencies c task = [] \<longleftrightarrow>
     (\<forall>d \<in> set (t_dependencies task). \<exists>dt. getTask c d = Some dt \<and> t_status dt = Completed)"
  by (auto simp: checkDependencies_def getTask_def filter_empty_conv split: option.splits)

lemma assignOptimalAgent_blocked:
  assumes "getTask c taskId = Some task" "t_status task = Pending" "checkDependencies c task \<noteq> []"
  shows "assignOptimalAgent now taskId c = (Inr None, c)"
  using assms by (simp add: assignOptimalAgent_def getTask_def)

lemma assignOptimalAgent_completed_iff:
  "(\<exists>dt. map_of (tasks (snd (assignOptimalAgent now taskId c))) d = Some dt \<and> t_status dt = Completed)
   \<longleftrightarrow> (\<exists>dt. map_of (tasks c) d = Some dt \<and> t_status dt = Completed)"
  using assignOptimalAgent_tasks [of now taskId c]
  by (cases "d = taskId") (auto simp: update_conv')

lemma assignOptimalAgent_checkDependencies:
  "checkDependencies (snd (assignOptimalAgent now taskId c)) task = checkDependencies c task"
proof -
  have "(case map_of (tasks (snd (assignOptimalAgent now taskId c))) d of
              None \<Rightarrow> True | Some depTask \<Rightarrow> t_status depTask \<noteq> Completed)
          = (case map_of (tasks c) d of None \<Rightarrow> True | Some depTask \<Rightarrow> t_status depTask \<noteq> Completed)"
    for d
  proof -
    have "(case map_of (tasks c') d of None \<Rightarrow> True | Some depTask \<Rightarrow> t_status depTask \<noteq> Completed)
        = (\<not> (\<exists>dt. map_of (tasks c') d = Some dt \<and> t_status dt = Completed))" for c' :: coordinator
      by (simp split: option.splits)
    then show ?thesis
      using assignOptimalAgent_completed_iff [of now taskId c d] by metis
  qed
  then show ?thesis by (simp add: checkDependencies_def)
qed

lemma assignOptimalAgent_leaves_pending:
  assumes "map_of (tasks c) k = Some task" "t_status task = Pending"
  shows "map_of (tasks (snd (assignOptimalAgent now taskId c))) k = Some task
       \<or> checkDependencies c task = []"
  using assignOptimalAgent_tasks [of now taskId c] assms
  by (cases "k = taskId") (auto simp: update_conv')

lemma assignEach_leaves_pending:
  assumes "map_of (tasks c) k = Some task" "t_status task = Pending"
    and "map_of (tasks (assignEach now ts c)) k = Some task'" "t_status task' \<noteq> Pending"
  shows "checkDependencies c task = []"
  using assms
proof (induction ts arbitrary: c)
  case Nil
  then show ?case by simp
next
  case (Cons t ts)
  let ?c1 = "snd (assignOptimalAgent now (t_id t) c)"
  from assignOptimalAgent_leaves_pending [OF Cons.prems(1,2), of now "t_id t"]
  show ?case
  proof
    assume same: "map_of (tasks ?c1) k = Some task"
    have "checkDependencies ?c1 task = []"
      using Cons.IH [OF same Cons.prems(2)] Cons.prems(3,4) by simp
    then show ?thesis by (simp add: assignOptimalAgent_checkDependencies)
  next
    assume "checkDependencies c task = []"
    then show ?thesis .
  qed
qed

text \<open>
  Claim C4, as amended. For a pending task, \<^verbatim>\<open>checkDependencies\<close> is empty exactly when
  every id in its dependency list is the id of a known task that is completed. With an
  unmet dependency \<^verbatim>\<open>assignOptimalAgent\<close> returns \<^verbatim>\<open>null\<close>, throws nothing and leaves the
  whole state, the task's status included, as it was. And when \<^verbatim>\<open>assignOptimalAgent\<close>
  on the task, or a \<^verbatim>\<open>processPendingTasks\<close> pass, leaves the task not pending, every one
  of its dependencies was completed.
\<close>

theorem assignOptimalAgent_dependency_gate:
  assumes "getTask c taskId = Some task" and "t_status task = Pending"
  shows "(checkDependencies c task = [] \<longleftrightarrow>
            (\<forall>d \<in> set (t_dependencies task). \<exists>dt. getTask c d = Some dt \<and> t_status dt = Completed))
       \<and> (checkDependencies c task \<noteq> [] \<longrightarrow> assignOptimalAgent now taskId c = (Inr None, c))
       \<and> (\<forall>task'. getTask (snd (assignOptimalAgent now taskId c)) taskId = Some task'
                   \<and> t_status task' \<noteq> Pending \<longrightarrow> checkDependencies c task = [])
       \<and> (\<forall>task'. getTask (processPendingTasks now c) taskId = Some task'
                   \<and> t_status task' \<noteq> Pending \<longrightarrow> checkDependencies c task = [])"
proof -
  have 1: "checkDependencies c task = [] \<longleftrightarrow>
            (\<forall>d \<in> set (t_dependencies task). \<exists>dt. getTask c d = Some dt \<and> t_status dt = Completed)"
    by (rule checkDependencies_Nil_iff)
  have 2: "checkDependencies c task \<noteq> [] \<longrightarrow> assignOptimalAgent now taskId c = (Inr None, c)"
    using assignOptimalAgent_blocked [OF assms] by blast
  have 3: "\<forall>task'. getTask (snd (assignOptimalAgent now taskId c)) taskId = Some task'
                   \<and> t_status task' \<noteq> Pending \<longrightarrow> checkDependencies c task = []"
    using assignOptimalAgent_leaves_pending [of c taskId task now taskId] assms
    by (auto simp: getTask_def)
  have 4: "\<forall>task'. getTask (processPendingTasks now c) taskId = Some task'
                   \<and> t_status task' \<noteq> Pending \<longrightarrow> checkDependencies c task = []"
    using assignEach_leaves_pending [of c taskId task now] assms
    unfolding getTask_def processPendingTasks_def Let_def by blast
  from 1 2 3 4 show ?thesis by (intro conjI) assumption+
qed

theorem assignOptimalAgent_dependency_gate_witness:
  "map_option t_status (getTask server_T2 ''T2'') = Some Pending
   \<and> map_option t_dependencies (getTask server_T2 ''T2'') = Some [''T1'']
   \<and> map_option t_status (getTask server_T2 ''T1'') = Some Assigned
   \<and> assignOptimalAgent 3 ''T2'' server_T2 = (Inr None, server_T2)"
proof -
  define task where "task = the (getTask server_T2 ''T2'')"
  have h1: "getTask server_T2 ''T2'' = Some task"
    unfolding task_def by code_simp
  have h2: "t_status task = Pending" and d: "t_dependencies task = [''T1'']"
    unfolding task_def by code_simp+
  have t1: "map_option t_status (getTask server_T2 ''T1'') = Some Assigned"
    by code_simp
  have unmet: "checkDependencies server_T2 task \<noteq> []"
    using conjunct1 [OF assignOptimalAgent_dependency_gate [OF h1 h2, of 3]] d t1
    by auto
  then have "assignOptimalAgent 3 ''T2'' server_T2 = (Inr None, server_T2)"
    using conjunct1 [OF conjunct2 [OF assignOptimalAgent_dependency_gate [OF h1 h2, of 3]]]
    by blast
  then show ?thesis using h1 h2 d t1 by simp
qed

text \<open>
  The gate is in \<^verbatim>\<open>assignOptimalAgent\<close> only. \<^verbatim>\<open>updateTaskProgress\<close> writes the status
  it is given: the pending \<open>T2\<close> goes to \<open>in_progress\<close> while its dependency \<open>T1\<close> is
  still \<open>assigned\<close>.
\<close>

theorem updateTaskProgress_ungated_counterexample:
  "map_option t_status (getTask server_T2 ''T2'') = Some Pending
   \<and> map_option t_dependencies (getTask server_T2 ''T2'') = Some [''T1'']
   \<and> map_option t_status (getTask server_T2 ''T1'') = Some Assigned
   \<and> map_option t_status (getTask (snd (updateTaskProgress 3 ''T2''
        \<lparr>u_progress = None, u_status = Some In_progress, u_message = None\<rparr> server_T2)) ''T2'')
       = Some In_progress
   \<and> map_option t_status (getTask (snd (updateTaskProgress 3 ''T2''
        \<lparr>u_progress = None, u_status = Some In_progress, u_message = None\<rparr> server_T2)) ''T1'')
       = Some Assigned"
  by code_simp

subsection \<open>Task creation\<close>

text \<open>
  Claim C9, as amended. \<^verbatim>\<open>createTask\<close> has no failing path: it stores the task it returns
  under the task's id. A missing description becomes \<open>Untitled task\<close> and a given one,
  the empty string included, is stored as given; priority defaults to \<open>medium\<close> and the
  required capabilities to the empty list. When the input carries no status, no
  progress and no id of its own, the task is \<open>pending\<close> with progress \<open>0\<close> under the fresh
  id.
\<close>

theorem createTask_result:
  "getTask (snd (createTask now uuid taskData c)) (t_id (fst (createTask now uuid taskData c))) =
     Some (fst (createTask now uuid taskData c))
   \<and> t_description (fst (createTask now uuid taskData c)) =
       (case td_description taskData of None \<Rightarrow> ''Untitled task'' | Some d \<Rightarrow> d)
   \<and> t_priority (fst (createTask now uuid taskData c)) =
       (case td_priority taskData of None \<Rightarrow> Medium | Some p \<Rightarrow> p)
   \<and> t_requiredCapabilities (fst (createTask now uuid taskData c)) =
       (case td_requiredCapabilities taskData of None \<Rightarrow> [] | Some cs \<Rightarrow> cs)
   \<and> (td_status taskData = None \<longrightarrow> t_status (fst (createTask now uuid taskData c)) = Pending)
   \<and> (td_progress taskData = None \<longrightarrow> t_progress (fst (createTask now uuid taskData c)) = 0)
   \<and> (td_id taskData = None \<longrightarrow> t_id (fst (createTask now uuid taskData c)) = uuid)"
  by (auto simp: createTask_def getTask_def Let_def spread_task_def obj_or_def str_or_def
        map_of_update_same split: option.splits)

theorem createTask_result_witness:
  "t_status (fst (createTask 1 ''T1''
      (no_task_data\<lparr>td_description := Some ''first'', td_priority := Some High\<rparr>)
      (new_coordinator new_registry))) = Pending
   \<and> t_progress (fst (createTask 1 ''T1''
      (no_task_data\<lparr>td_description := Some ''first'', td_priority := Some High\<rparr>)
      (new_coordinator new_registry))) = 0
   \<and> t_id (fst (createTask 1 ''T1''
      (no_task_data\<lparr>td_description := Some ''first'', td_priority := Some High\<rparr>)
      (new_coordinator new_registry))) = ''T1''
   \<and> t_priority (fst (createTask 1 ''T1''
      (no_task_data\<lparr>td_description := Some ''first'', td_priority := Some High\<rparr>)
      (new_coordinator new_registry))) = High
   \<and> t_requiredCapabilities (fst (createTask 1 ''T1''
      (no_task_data\<lparr>td_description := Some ''first'', td_priority := Some High\<rparr>)
      (new_coordinator new_registry))) = []"
  using createTask_result [of 1 "''T1''"
      "no_task_data\<lparr>td_description := Some ''first'', td_priority := Some High\<rparr>"
      "new_coordinator new_registry"]
  by (simp add: no_task_data_def)

text \<open>
  A \<^verbatim>\<open>create_task\<close> message without a description, and one with an empty description,
  is answered with \<^verbatim>\<open>task_created\<close>, not \<^verbatim>\<open>task_error\<close>, and the task is in the task map
  afterwards.
\<close>

theorem createTask_no_description_counterexample:
  "fst (on_create_task 1 ''T1'' no_task_data server_A1) =
     [Task_assigned_broadcast ''T1'' ''A1'', Task_created_reply ''T1'']
   \<and> map_option t_description (getTask (snd (on_create_task 1 ''T1'' no_task_data server_A1)) ''T1'')
       = Some ''Untitled task''
   \<and> getTask server_A1 ''T1'' = None
   \<and> fst (on_create_task 1 ''T1'' (no_task_data\<lparr>td_description := Some []\<rparr>) server_A1) =
     [Task_assigned_broadcast ''T1'' ''A1'', Task_created_reply ''T1'']
   \<and> map_option t_description (getTask (snd (on_create_task 1 ''T1''
        (no_task_data\<lparr>td_description := Some []\<rparr>) server_A1)) ''T1'') = Some []"
  by code_simp

subsection \<open>Completion and the agent's current task\<close>

text \<open>
  For a task whose assigned agent is registered, the completion handler sets the agent
  \<open>online\<close> and leaves its current task as it was.
\<close>

lemma handleTaskCompletion_keeps_currentTask:
  assumes "t_assignedAgent task = Some agentId" "agentId \<noteq> []"
    and "getAgent (agentRegistry c) agentId = Some agent"
  shows "fst (handleTaskCompletion now task c) = None
       \<and> (\<exists>agent'. getAgent (agentRegistry (snd (handleTaskCompletion now task c))) agentId = Some agent'
             \<and> a_status agent' = Online
             \<and> a_currentTask agent' = a_currentTask agent)"
proof -
  define duration where "duration =
     (case (t_startedAt task, t_completedAt task) of
        (Some s, Some e) \<Rightarrow> real_of_int (e - s) | _ \<Rightarrow> 0)"
  define reg1 where "reg1 = snd (updateAgentPerformance agentId duration True (agentRegistry c))"
  have "\<exists>agent1. getAgent reg1 agentId = Some agent1 \<and> a_currentTask agent1 = a_currentTask agent"
    using assms(3)
    by (auto simp: reg1_def updateAgentPerformance_def getAgent_def Let_def map_of_update_same)
  then obtain agent1 where a1: "getAgent reg1 agentId = Some agent1"
    and ct: "a_currentTask agent1 = a_currentTask agent" by blast
  have h: "handleTaskCompletion now task c =
      (fst (updateAgentStatus now agentId Online None reg1),
       c\<lparr>agentRegistry := snd (updateAgentStatus now agentId Online None reg1)\<rparr>)"
    using assms(1,2)
    by (simp add: handleTaskCompletion_def truthy_def Let_def reg1_def duration_def case_prod_beta)
  from updateAgentStatus_known [OF a1, of now Online None] ct
  show ?thesis by (simp add: h)
qed

text \<open>
  Claim C1, on the dependency scenario. \<open>T1\<close> is assigned to \<open>A1\<close> and \<open>T2\<close> waits for \<open>T1\<close>.
  After the message that completes \<open>T1\<close>, \<open>A1\<close> is \<open>online\<close> but its current task is still
  \<open>T1\<close>: \<^verbatim>\<open>handleTaskCompletion\<close> calls \<^verbatim>\<open>updateAgentStatus\<close> without a third argument, and
  \<^verbatim>\<open>updateAgentStatus\<close> writes the current task only when one is given. So no agent is
  available and the pending pass leaves \<open>T2\<close> pending and unassigned.
\<close>

theorem completion_keeps_currentTask:
  "map_option t_status (getTask server_T2 ''T1'') = Some Assigned
   \<and> map_option t_assignedAgent (getTask server_T2 ''T1'') = Some (Some ''A1'')
   \<and> map_option t_status (getTask server_T2 ''T2'') = Some Pending
   \<and> map_option t_dependencies (getTask server_T2 ''T2'') = Some [''T1'']
   \<and> map_option t_status (getTask server_T1_done ''T1'') = Some Completed
   \<and> map_option a_status (getAgent (agentRegistry server_T1_done) ''A1'') = Some Online
   \<and> map_option a_currentTask (getAgent (agentRegistry server_T1_done) ''A1'') = Some (Some ''T1'')
   \<and> getAvailableAgents (agentRegistry server_T1_done) = []
   \<and> map_option t_status (getTask server_T1_done ''T2'') = Some Pending
   \<and> map_option t_assignedAgent (getTask server_T1_done ''T2'') = Some None"
  by code_simp

subsection \<open>Agent status and assignments\<close>






subsection \<open>Resource contention\<close>

lemma detectConflicts_fst:
  "fst (detectConflicts c) = resourceContention c @ dependencyDeadlock c @ capabilityMismatch c"
  by (simp add: detectConflicts_def Let_def)

lemma dependencyDeadlock_type:
  "conflict \<in> set (dependencyDeadlock c) \<Longrightarrow> c_type conflict = Dependency_deadlock"
  by (auto simp: dependencyDeadlock_def)

lemma capabilityMismatch_type:
  "conflict \<in> set (capabilityMismatch c) \<Longrightarrow> c_type conflict = Capability_mismatch"
  by (auto simp: capabilityMismatch_def Let_def split: option.splits if_splits)

lemma resourceContention_iff:
  "conflict \<in> set (resourceContention c) \<longleftrightarrow>
     (\<exists>agent \<in> set (getAllAgents (agentRegistry c)).
        a_status agent = Busy
        \<and> 1 < length (filter (\<lambda>task. t_assignedAgent task = Some (a_id agent)) (getAllTasks c))
        \<and> conflict =
            \<lparr>c_type = Resource_contention,
             c_involvedTasks =
               map t_id (filter (\<lambda>task. t_assignedAgent task = Some (a_id agent)) (getAllTasks c)),
             c_involvedAgents = [a_id agent],
             c_severity = Sev_medium,
             c_suggestedResolution = ''Redistribute tasks from agent '' @ a_id agent\<rparr>)"
  by (auto simp: resourceContention_def getAllTasks_def Let_def split: if_splits)

lemma contention_in_detectConflicts:
  "(conflict \<in> set (fst (detectConflicts c)) \<and> c_type conflict = Resource_contention)
   \<longleftrightarrow> conflict \<in> set (resourceContention c)"
  using dependencyDeadlock_type [of conflict c] capabilityMismatch_type [of conflict c]
    resourceContention_iff [of conflict c]
  by (auto simp: detectConflicts_fst)

text \<open>
  What the first loop of \<^verbatim>\<open>detectConflicts\<close> reports: an agent id is reported for resource
  contention exactly when a busy agent has that id and more than one task, of any status,
  names it as assigned agent; the severity is \<open>medium\<close>.
\<close>

lemma detectConflicts_resource_contention:
  "((\<exists>conflict \<in> set (fst (detectConflicts c)).
        c_type conflict = Resource_contention \<and> c_involvedAgents conflict = [agentId])
    \<longleftrightarrow> (\<exists>agent \<in> set (getAllAgents (agentRegistry c)).
          a_id agent = agentId \<and> a_status agent = Busy
          \<and> 1 < length (filter (\<lambda>task. t_assignedAgent task = Some agentId) (getAllTasks c))))
   \<and> (\<forall>conflict \<in> set (fst (detectConflicts c)).
         c_type conflict = Resource_contention \<longrightarrow> c_severity conflict = Sev_medium)"
proof -
  have "(\<exists>conflict \<in> set (fst (detectConflicts c)).
        c_type conflict = Resource_contention \<and> c_involvedAgents conflict = [agentId])
    \<longleftrightarrow> (\<exists>conflict \<in> set (resourceContention c). c_involvedAgents conflict = [agentId])"
    using contention_in_detectConflicts [of _ c] by blast
  also have "\<dots> \<longleftrightarrow> (\<exists>agent \<in> set (getAllAgents (agentRegistry c)).
          a_id agent = agentId \<and> a_status agent = Busy
          \<and> 1 < length (filter (\<lambda>task. t_assignedAgent task = Some agentId) (getAllTasks c)))"
  proof
    assume "\<exists>conflict \<in> set (resourceContention c). c_involvedAgents conflict = [agentId]"
    then obtain conflict where m: "conflict \<in> set (resourceContention c)"
      and i: "c_involvedAgents conflict = [agentId]" by blast
    from m [unfolded resourceContention_iff] i show "\<exists>agent \<in> set (getAllAgents (agentRegistry c)).
          a_id agent = agentId \<and> a_status agent = Busy
          \<and> 1 < length (filter (\<lambda>task. t_assignedAgent task = Some agentId) (getAllTasks c))"
      by auto
  next
    assume "\<exists>agent \<in> set (getAllAgents (agentRegistry c)).
          a_id agent = agentId \<and> a_status agent = Busy
          \<and> 1 < length (filter (\<lambda>task. t_assignedAgent task = Some agentId) (getAllTasks c))"
    then obtain agent where ag: "agent \<in> set (getAllAgents (agentRegistry c))"
      "a_id agent = agentId" "a_status agent = Busy"
      "1 < length (filter (\<lambda>task. t_assignedAgent task = Some (a_id agent)) (getAllTasks c))"
      by blast
    define conflict where "conflict =
            \<lparr>c_type = Resource_contention,
             c_involvedTasks =
               map t_id (filter (\<lambda>task. t_assignedAgent task = Some (a_id agent)) (getAllTasks c)),
             c_involvedAgents = [a_id agent],
             c_severity = Sev_medium,
             c_suggestedResolution = ''Redistribute tasks from agent '' @ a_id agent\<rparr>"
    have "conflict \<in> set (resourceContention c)"
      unfolding resourceContention_iff using ag conflict_def by blast
    moreover have "c_involvedAgents conflict = [agentId]"
      using ag(2) by (simp add: conflict_def)
    ultimately show "\<exists>conflict \<in> set (resourceContention c). c_involvedAgents conflict = [agentId]"
      by blast
  qed
  finally have 1: "(\<exists>conflict \<in> set (fst (detectConflicts c)).
        c_type conflict = Resource_contention \<and> c_involvedAgents conflict = [agentId])
    \<longleftrightarrow> (\<exists>agent \<in> set (getAllAgents (agentRegistry c)).
          a_id agent = agentId \<and> a_status agent = Busy
          \<and> 1 < length (filter (\<lambda>task. t_assignedAgent task = Some agentId) (getAllTasks c)))" .
  have 2: "\<forall>conflict \<in> set (fst (detectConflicts c)).
         c_type conflict = Resource_contention \<longrightarrow> c_severity conflict = Sev_medium"
  proof (intro ballI impI)
    fix conflict
    assume "conflict \<in> set (fst (detectConflicts c))" "c_type conflict = Resource_contention"
    then have "conflict \<in> set (resourceContention c)"
      using contention_in_detectConflicts by blast
    from this [unfolded resourceContention_iff] show "c_severity conflict = Sev_medium"
      by auto
  qed
  from 1 2 show ?thesis by (rule conjI)
qed

text \<open>
  Claim C7, at a busy agent with one live task. \<open>A1\<close> is busy with \<open>T3\<close> and its earlier
  task \<open>T1\<close> is completed; \<^verbatim>\<open>detectConflicts\<close> counts both and reports a resource
  contention for \<open>A1\<close> over \<open>[T1, T3]\<close>. The third loop of the same function does filter
  the tasks by status.
\<close>

theorem detectConflicts_counts_completed_task:
  "map_option a_status (getAgent (agentRegistry server_T3) ''A1'') = Some Busy
   \<and> map (\<lambda>task. (t_id task, t_status task))
        (filter (\<lambda>task. t_assignedAgent task = Some ''A1'') (getAllTasks server_T3))
       = [(''T1'', Completed), (''T3'', Assigned)]
   \<and> map (\<lambda>conflict. (c_type conflict, c_involvedTasks conflict, c_involvedAgents conflict,
                       c_severity conflict)) (fst (detectConflicts server_T3))
       = [(Resource_contention, [''T1'', ''T3''], [''A1''], Sev_medium)]"
  by code_simp

end
